theory Spec2Isabelle
  imports Main "HOL-Library.Sublist"
begin

text \<open>
  A model of the two scripts of the news-triage pipeline: the linear script
  \<open>early_warning_system.py\<close> and the graph workflow \<open>main.py\<close>. The completion client
  and the news service are parameters; what a run prints, which prompts it sends and
  which alerts it delivers are kept as a list of events.
\<close>

section \<open>Python strings\<close>

text \<open>
  A Python \<open>str\<close> is modelled as a \<open>string\<close> whose characters are code points below 256.
  The string methods the two scripts call are written out for that range.
\<close>

definition dq :: char where
  "dq = CHR 0x22"

definition backslash :: char where
  "backslash = CHR 0x5C"

definition newline :: char where
  "newline = CHR 0x0A"

definition code :: "char \<Rightarrow> nat" where
  "code c = of_char c"

text \<open>\<open>str.replace(old, new)\<close>: non-overlapping occurrences, leftmost first.\<close>

function replace :: "string \<Rightarrow> string \<Rightarrow> string \<Rightarrow> string" where
  "replace old new [] = (if old = [] then new else [])"
| "replace old new (c # cs) =
     (if old = [] then new @ c # replace old new cs
      else if prefix old (c # cs) then new @ replace old new (drop (length old) (c # cs))
      else c # replace old new cs)"
  by pat_completeness auto
termination
  by (relation "measure (\<lambda>(old, new, s). length s)") (auto simp: neq_Nil_conv)

text \<open>\<open>str.isspace\<close> on the code points below 256, as \<open>str.strip()\<close> uses it.\<close>

definition is_space :: "char \<Rightarrow> bool" where
  "is_space c = (code c \<in> {9, 10, 11, 12, 13, 28, 29, 30, 31, 32, 133, 160})"

definition strip :: "string \<Rightarrow> string" where
  "strip s = rev (dropWhile is_space (rev (dropWhile is_space s)))"

text \<open>\<open>str.lower()\<close> on the code points below 256.\<close>

definition lower_char :: "char \<Rightarrow> char" where
  "lower_char c =
     (let n = code c in
      if (65 \<le> n \<and> n \<le> 90) \<or> (192 \<le> n \<and> n \<le> 222 \<and> n \<noteq> 215)
      then char_of (n + 32) else c)"

definition lower :: "string \<Rightarrow> string" where
  "lower s = map lower_char s"

text \<open>\<open>sub in s\<close> on strings.\<close>

fun contains :: "string \<Rightarrow> string \<Rightarrow> bool" where
  "contains sub [] = (sub = [])"
| "contains sub (c # cs) = (prefix sub (c # cs) \<or> contains sub cs)"

section \<open>JSON values and their Python meaning\<close>

text \<open>
  The values \<open>json.loads\<close> builds. \<open>JNull\<close> is Python's \<open>None\<close>. A JSON string is
  kept as its list of code points, since a \<open>\uXXXX\<close> escape denotes any code point.
  \<open>JFloat m e\<close> is the decimal \<open>m * 10 ^ e\<close> of a literal with a fraction or an exponent,
  before Python rounds it to a double. A dict keeps its keys in insertion order.
\<close>

datatype json =
    JNull
  | JBool bool
  | JInt int
  | JFloat int int
  | JNaN
  | JInfinity bool
  | JStr "nat list"
  | JArray "json list"
  | JObject "(nat list \<times> json) list"

definition key :: "string \<Rightarrow> nat list" where
  "key s = map code s"

text \<open>
  Python truth value (\<open>bool(x)\<close>, as \<open>not x\<close> and \<open>if x\<close> take it). A float literal is
  rounded to the nearest double, which is zero exactly when its magnitude is at most
  \<open>2 ^ -1075\<close>, half of the least positive double.
\<close>

fun truthy :: "json \<Rightarrow> bool" where
  "truthy JNull = False"
| "truthy (JBool b) = b"
| "truthy (JInt i) = (i \<noteq> 0)"
| "truthy (JFloat m e) =
     (if 0 \<le> e then m \<noteq> 0 else 10 ^ nat (- e) < \<bar>m\<bar> * 2 ^ 1075)"
| "truthy JNaN = True"
| "truthy (JInfinity neg) = True"
| "truthy (JStr s) = (s \<noteq> [])"
| "truthy (JArray xs) = (xs \<noteq> [])"
| "truthy (JObject kvs) = (kvs \<noteq> [])"

text \<open>
  Exceptions, as far as the scripts can meet them; all of them are \<open>Exception\<close>s, which
  \<open>except Exception\<close> and a bare \<open>except\<close> both catch. \<open>Raised\<close> is an exception of a
  collaborator, with its message.
\<close>

datatype exn =
    KeyError
  | TypeError
  | AttributeError
  | Raised string

text \<open>
  \<open>x.get(k)\<close>: a dict answers with the value or \<open>None\<close>; every other decoded value has no
  attribute \<open>get\<close>.
\<close>

fun py_get :: "json \<Rightarrow> nat list \<Rightarrow> exn + json" where
  "py_get (JObject kvs) k = Inr (case map_of kvs k of None \<Rightarrow> JNull | Some v \<Rightarrow> v)"
| "py_get v k = Inl AttributeError"

text \<open>\<open>d[k] = v\<close> on an insertion-ordered dict.\<close>

fun dict_set :: "nat list \<Rightarrow> json \<Rightarrow> (nat list \<times> json) list \<Rightarrow> (nat list \<times> json) list" where
  "dict_set k v [] = [(k, v)]"
| "dict_set k v (p # ps) = (if fst p = k then (k, v) # ps else p # dict_set k v ps)"

section \<open>The standard library's \<open>json.loads\<close>\<close>

text \<open>
  \<open>json.loads\<close> with its default settings, on a \<open>str\<close>: it returns the decoded value or
  raises \<open>JSONDecodeError\<close> (here \<open>None\<close>). The limits of the interpreter (recursion
  depth, digits of an integer literal, memory) are outside the model. The text is cut
  into tokens, which a stack machine assembles.
\<close>

datatype token =
    TLBrace | TRBrace | TLBrack | TRBrack | TColon | TComma
  | TVal json

definition is_digit :: "char \<Rightarrow> bool" where
  "is_digit c = (48 \<le> code c \<and> code c \<le> 57)"

definition digit_val :: "char \<Rightarrow> nat" where
  "digit_val c = code c - 48"

definition hex_val :: "char \<Rightarrow> nat option" where
  "hex_val c =
     (let n = code c in
      if 48 \<le> n \<and> n \<le> 57 then Some (n - 48)
      else if 97 \<le> n \<and> n \<le> 102 then Some (n - 87)
      else if 65 \<le> n \<and> n \<le> 70 then Some (n - 55)
      else None)"

text \<open>Four hexadecimal digits at the head of the text.\<close>

definition hex4 :: "string \<Rightarrow> nat option" where
  "hex4 s =
     (case s of
        a # b # c # d # _ \<Rightarrow>
          (case (hex_val a, hex_val b, hex_val c, hex_val d) of
             (Some w, Some x, Some y, Some z) \<Rightarrow> Some (((w * 16 + x) * 16 + y) * 16 + z)
           | _ \<Rightarrow> None)
      | _ \<Rightarrow> None)"

definition escape :: "char \<Rightarrow> nat option" where
  "escape c =
     (if c = dq then Some 34
      else if c = backslash then Some 92
      else if c = CHR ''/'' then Some 47
      else if c = CHR ''b'' then Some 8
      else if c = CHR ''f'' then Some 12
      else if c = CHR ''n'' then Some 10
      else if c = CHR ''r'' then Some 13
      else if c = CHR ''t'' then Some 9
      else None)"

text \<open>A low surrogate escape \<open>\uXXXX\<close> at the head of the text.\<close>

definition low_surrogate :: "string \<Rightarrow> nat option" where
  "low_surrogate s =
     (case s of
        b # u # r \<Rightarrow>
          (if b = backslash \<and> u = CHR ''u'' then
             (case hex4 r of
                Some l \<Rightarrow> if 56320 \<le> l \<and> l \<le> 57343 then Some l else None
              | None \<Rightarrow> None)
           else None)
      | _ \<Rightarrow> None)"

text \<open>
  The body of a string literal, after the opening quote: the code points, and how many
  characters were read, closing quote included. Control characters are refused.
\<close>

fun scan_string :: "string \<Rightarrow> (nat list \<times> nat) option" where
  "scan_string [] = None"
| "scan_string (c # cs) =
     (if c = dq then Some ([], 1)
      else if code c < 32 then None
      else if c = backslash then
        (case cs of
           [] \<Rightarrow> None
         | e # es \<Rightarrow>
             if e = CHR ''u'' then
               (case hex4 es of
                  None \<Rightarrow> None
                | Some h \<Rightarrow>
                    (case (if 55296 \<le> h \<and> h \<le> 56319 then low_surrogate (drop 4 es) else None) of
                       Some l \<Rightarrow>
                         map_option (\<lambda>(s, k). ((65536 + ((h - 55296) * 1024 + (l - 56320))) # s, k + 12))
                           (scan_string (drop 10 es))
                     | None \<Rightarrow>
                         map_option (\<lambda>(s, k). (h # s, k + 6)) (scan_string (drop 4 es))))
             else
               (case escape e of
                  None \<Rightarrow> None
                | Some x \<Rightarrow> map_option (\<lambda>(s, k). (x # s, k + 2)) (scan_string es)))
      else map_option (\<lambda>(s, k). (code c # s, k + 1)) (scan_string cs))"

text \<open>The digits at the head of the text.\<close>

definition digits :: "string \<Rightarrow> string" where
  "digits s = takeWhile is_digit s"

definition digits_val :: "string \<Rightarrow> nat" where
  "digits_val ds = foldl (\<lambda>a d. a * 10 + digit_val d) 0 ds"

text \<open>
  A number whose first character (after an optional minus sign) is the digit \<open>d\<close>,
  followed by \<open>cs\<close>: the value, and how many characters of \<open>cs\<close> were read. A leading
  zero ends the integer part; a fraction needs a digit after the point, an exponent
  needs a digit after its sign, and is left unread otherwise.
\<close>

definition scan_number :: "bool \<Rightarrow> char \<Rightarrow> string \<Rightarrow> json \<times> nat" where
  "scan_number neg d cs =
     (let ip = (if d = CHR ''0'' then [] else digits cs);
          r1 = drop (length ip) cs;
          fp = (case r1 of p # r \<Rightarrow> if p = CHR ''.'' then digits r else [] | [] \<Rightarrow> []);
          r2 = (if fp = [] then r1 else drop (Suc (length fp)) r1);
          (sg, r3) = (case r2 of
                        x # r \<Rightarrow>
                          if x = CHR ''e'' \<or> x = CHR ''E'' then
                            (case r of
                               s # r' \<Rightarrow>
                                 if s = CHR ''-'' then (Some True, r')
                                 else if s = CHR ''+'' then (Some False, r')
                                 else (Some False, r)
                             | [] \<Rightarrow> (Some False, r))
                          else (None, r2)
                      | [] \<Rightarrow> (None, r2));
          ep = (if sg = None then [] else digits r3);
          used = length cs - (if ep = [] then length r2 else length r3 - length ep);
          sign = (if neg then - 1 else 1 :: int);
          mant = sign * int (digits_val (d # ip @ fp));
          ex = (if sg = Some True then - int (digits_val ep) else int (digits_val ep))
      in if fp = [] \<and> ep = [] then (JInt mant, used)
         else (JFloat mant (ex - int (length fp)), used))"

text \<open>The tokens of a text; \<open>None\<close> when some character starts no token.\<close>

definition is_json_ws :: "char \<Rightarrow> bool" where
  "is_json_ws c = (code c \<in> {32, 9, 10, 13})"

fun tokens :: "string \<Rightarrow> token list option" where
  "tokens [] = Some []"
| "tokens (c # cs) =
     (if is_json_ws c then tokens cs
      else if c = CHR ''{'' then map_option (Cons TLBrace) (tokens cs)
      else if c = CHR ''}'' then map_option (Cons TRBrace) (tokens cs)
      else if c = CHR ''['' then map_option (Cons TLBrack) (tokens cs)
      else if c = CHR '']'' then map_option (Cons TRBrack) (tokens cs)
      else if c = CHR '':'' then map_option (Cons TColon) (tokens cs)
      else if c = CHR '','' then map_option (Cons TComma) (tokens cs)
      else if c = dq then
        (case scan_string cs of
           None \<Rightarrow> None
         | Some (s, k) \<Rightarrow> map_option (Cons (TVal (JStr s))) (tokens (drop k cs)))
      else if prefix ''null'' (c # cs) then
        map_option (Cons (TVal JNull)) (tokens (drop 3 cs))
      else if prefix ''true'' (c # cs) then
        map_option (Cons (TVal (JBool True))) (tokens (drop 3 cs))
      else if prefix ''false'' (c # cs) then
        map_option (Cons (TVal (JBool False))) (tokens (drop 4 cs))
      else if prefix ''NaN'' (c # cs) then
        map_option (Cons (TVal JNaN)) (tokens (drop 2 cs))
      else if prefix ''Infinity'' (c # cs) then
        map_option (Cons (TVal (JInfinity False))) (tokens (drop 7 cs))
      else if prefix ''-Infinity'' (c # cs) then
        map_option (Cons (TVal (JInfinity True))) (tokens (drop 8 cs))
      else if is_digit c then
        (case scan_number False c cs of
           (v, k) \<Rightarrow> map_option (Cons (TVal v)) (tokens (drop k cs)))
      else if c = CHR ''-'' then
        (case cs of
           d # ds \<Rightarrow>
             if is_digit d then
               (case scan_number True d ds of
                  (v, k) \<Rightarrow> map_option (Cons (TVal v)) (tokens (drop k ds)))
             else None
         | [] \<Rightarrow> None)
      else None)"

text \<open>
  The stack machine. A frame is an array or an object under construction; the mode says
  what may come next.
\<close>

datatype frame =
    FArr "json list"
  | FObj "(nat list \<times> json) list" "nat list option"

datatype mode =
    MValue
  | MValueOrEnd
  | MKeyOrEnd
  | MKey
  | MColon
  | MAfter
  | MDone json

fun complete :: "json \<Rightarrow> frame list \<Rightarrow> (frame list \<times> mode) option" where
  "complete v [] = Some ([], MDone v)"
| "complete v (FArr es # st) = Some (FArr (v # es) # st, MAfter)"
| "complete v (FObj kvs (Some k) # st) = Some (FObj (dict_set k v kvs) None # st, MAfter)"
| "complete v (FObj kvs None # st) = None"

fun step :: "frame list \<Rightarrow> mode \<Rightarrow> token \<Rightarrow> (frame list \<times> mode) option" where
  "step st MValue (TVal v) = complete v st"
| "step st MValue TLBrack = Some (FArr [] # st, MValueOrEnd)"
| "step st MValue TLBrace = Some (FObj [] None # st, MKeyOrEnd)"
| "step st MValueOrEnd (TVal v) = complete v st"
| "step st MValueOrEnd TLBrack = Some (FArr [] # st, MValueOrEnd)"
| "step st MValueOrEnd TLBrace = Some (FObj [] None # st, MKeyOrEnd)"
| "step (FArr es # st) MValueOrEnd TRBrack = complete (JArray []) st"
| "step (FObj kvs p # st) MKeyOrEnd (TVal (JStr k)) = Some (FObj kvs (Some k) # st, MColon)"
| "step (FObj kvs p # st) MKeyOrEnd TRBrace = complete (JObject []) st"
| "step (FObj kvs p # st) MKey (TVal (JStr k)) = Some (FObj kvs (Some k) # st, MColon)"
| "step st MColon TColon = Some (st, MValue)"
| "step (FArr es # st) MAfter TComma = Some (FArr es # st, MValue)"
| "step (FArr es # st) MAfter TRBrack = complete (JArray (rev es)) st"
| "step (FObj kvs p # st) MAfter TComma = Some (FObj kvs p # st, MKey)"
| "step (FObj kvs p # st) MAfter TRBrace = complete (JObject kvs) st"
| "step st m t = None"

fun assemble :: "frame list \<Rightarrow> mode \<Rightarrow> token list \<Rightarrow> json option" where
  "assemble st (MDone v) [] = Some v"
| "assemble st m [] = None"
| "assemble st m (t # ts) =
     (case step st m t of
        None \<Rightarrow> None
      | Some (st', m') \<Rightarrow> assemble st' m' ts)"

definition json_loads :: "string \<Rightarrow> json option" where
  "json_loads s =
     (case tokens s of
        None \<Rightarrow> None
      | Some ts \<Rightarrow> assemble [] MValue ts)"

section \<open>\<open>early_warning_system.py\<close>: the parser of completions\<close>

definition fence :: string where
  "fence = ''```''"

definition fence_json :: string where
  "fence_json = ''```json''"

definition clean :: "string \<Rightarrow> string" where
  "clean response_text = strip (replace fence [] (replace fence_json [] response_text))"

text \<open>
  \<open>parse_json_response\<close>: the decoded value, or \<open>None\<close> when \<open>json.loads\<close> raises
  \<open>JSONDecodeError\<close>.
\<close>

definition parse_json_response :: "string \<Rightarrow> json" where
  "parse_json_response response_text =
     (case json_loads (clean response_text) of
        Some v \<Rightarrow> v
      | None \<Rightarrow> JNull)"

section \<open>Articles, the completion client and what a run shows\<close>

text \<open>
  An article is the dict the news service returns. A key can be absent, hold \<open>None\<close>
  or hold a text; \<open>d.get(k)\<close> does not tell the first two apart, \<open>d[k]\<close> raises
  \<open>KeyError\<close> on the first.
\<close>

datatype field = Missing | Null | Text string

record article =
  title :: field
  description :: field
  url :: field
  source_name :: field

fun field_get :: "field \<Rightarrow> string option" where
  "field_get (Text s) = Some s"
| "field_get f = None"

fun field_item :: "field \<Rightarrow> exn + string option" where
  "field_item Missing = Inl KeyError"
| "field_item Null = Inr None"
| "field_item (Text s) = Inr (Some s)"

text \<open>\<open>x or y\<close> on values that are a text or \<open>None\<close>: the empty text is false.\<close>

fun py_or :: "string option \<Rightarrow> string option \<Rightarrow> string option" where
  "py_or (Some s) y = (if s = [] then y else Some s)"
| "py_or None y = y"

text \<open>
  A formatted prompt is kept as its template and the values put into it. The completion
  client is \<open>llm.invoke\<close>: the \<open>i\<close>-th call of a run, on a prompt, returns a text or raises
  an \<open>Exception\<close>. Nothing is assumed about how the answers depend on the prompts.
\<close>

datatype prompt =
    Filter_prompt "string option"
  | Analysis_prompt "string option" "string option"
  | Summary_prompt "string option" "string option" json
  | Wf_filter_prompt "string option"
  | Wf_analysis_prompt "string option" "string option"
  | Wf_writer_prompt string

type_synonym llm = "nat \<Rightarrow> prompt \<Rightarrow> exn + string"

text \<open>
  What a run does that can be seen from outside, in order: each call of the completion
  client, each printed line (with the values printed in it) and each alert handed to
  \<open>send_email_alert\<close> (the risk type of its subject, the summary and the url of its
  body).
\<close>

datatype event =
    Llm_invoke prompt
  | Scan_started
  | Fetch_failed exn
  | Processing string
  | Skipped "json option"
  | Filter_error exn
  | Relevant
  | Safe "json option"
  | Alert_detected json json
  | Analysis_error exn
  | Email_sent json string "string option"
  | Summary_error exn
  | Step_banner nat
  | Api_error exn
  | Wf_relevant string
  | Wf_skipped string
  | No_relevant_news
  | Final_email string

text \<open>
  The outcome of the retrieval call \<open>get_top_headlines(...).get('articles', [])\<close>: an
  exception, or the list of articles.
\<close>

type_synonym retrieval = "exn + article list"

section \<open>\<open>early_warning_system.py\<close>: the linear script\<close>

definition mock_articles :: "article list" where
  "mock_articles =
     [\<lparr>title = Text ''Central Bank announces surprise 0.5% interest rate hike due to inflation fears'',
       description = Text ''The monetary policy committee decided to raise rates immediately. Markets are tumbling.'',
       url = Text ''http://test-news.com/1'',
       source_name = Text ''Global Finance''\<rparr>,
      \<lparr>title = Text ''New iPhone 16 features leaked ahead of launch'',
       description = Text ''Apple's new phone will feature a better camera and AI capabilities.'',
       url = Text ''http://test-news.com/2'',
       source_name = Text ''Tech Daily''\<rparr>,
      \<lparr>title = Text ''Major Real Estate Developer files for bankruptcy protection'',
       description = Text ''One of the largest developers has defaulted on its $5B debt obligations.'',
       url = Text ''http://test-news.com/3'',
       source_name = Text ''Biz Insider''\<rparr>]"

definition fetch_news :: "retrieval \<Rightarrow> event list \<times> article list" where
  "fetch_news api =
     (case api of
        Inr articles \<Rightarrow> if articles \<noteq> [] then ([], articles) else ([], mock_articles)
      | Inl e \<Rightarrow> ([Fetch_failed e], mock_articles))"

text \<open>
  Step 1 of the loop body, from the call of the client to the \<open>continue\<close> or the fall
  through: what is shown, and whether the article goes on.
\<close>

definition filter_stage :: "llm \<Rightarrow> nat \<Rightarrow> string option \<Rightarrow> event list \<times> bool" where
  "filter_stage llm n headline =
     (case llm n (Filter_prompt headline) of
        Inl e \<Rightarrow> ([Llm_invoke (Filter_prompt headline), Filter_error e], False)
      | Inr filter_res_raw \<Rightarrow>
          (let filter_data = parse_json_response filter_res_raw in
           if \<not> truthy filter_data
           then ([Llm_invoke (Filter_prompt headline), Skipped None], False)
           else
             (case py_get filter_data (key ''is_relevant'') of
                Inl e \<Rightarrow> ([Llm_invoke (Filter_prompt headline), Filter_error e], False)
              | Inr is_relevant \<Rightarrow>
                  if \<not> truthy is_relevant
                  then
                    (case py_get filter_data (key ''reason'') of
                       Inl e \<Rightarrow> ([Llm_invoke (Filter_prompt headline), Filter_error e], False)
                     | Inr reason \<Rightarrow>
                         ([Llm_invoke (Filter_prompt headline), Skipped (Some reason)], False))
                  else ([Llm_invoke (Filter_prompt headline), Relevant], True))))"

text \<open>Step 2: what is shown, and the risk type when the article goes on.\<close>

definition analysis_stage ::
  "llm \<Rightarrow> nat \<Rightarrow> string option \<Rightarrow> string option \<Rightarrow> event list \<times> json option" where
  "analysis_stage llm n headline content =
     (case llm n (Analysis_prompt headline content) of
        Inl e \<Rightarrow> ([Llm_invoke (Analysis_prompt headline content), Analysis_error e], None)
      | Inr analysis_res_raw \<Rightarrow>
          (let risk_data = parse_json_response analysis_res_raw in
           if \<not> truthy risk_data
           then ([Llm_invoke (Analysis_prompt headline content), Safe None], None)
           else
             (case py_get risk_data (key ''send_alert'') of
                Inl e \<Rightarrow> ([Llm_invoke (Analysis_prompt headline content), Analysis_error e], None)
              | Inr send_alert \<Rightarrow>
                  if \<not> truthy send_alert
                  then
                    (case py_get risk_data (key ''risk_type'') of
                       Inl e \<Rightarrow>
                         ([Llm_invoke (Analysis_prompt headline content), Analysis_error e], None)
                     | Inr risk_type \<Rightarrow>
                         ([Llm_invoke (Analysis_prompt headline content), Safe (Some risk_type)], None))
                  else
                    (case (py_get risk_data (key ''risk_type''),
                           py_get risk_data (key ''impact_level'')) of
                       (Inr risk_type, Inr impact_level) \<Rightarrow>
                         ([Llm_invoke (Analysis_prompt headline content),
                           Alert_detected impact_level risk_type], Some risk_type)
                     | (Inl e, _) \<Rightarrow>
                         ([Llm_invoke (Analysis_prompt headline content), Analysis_error e], None)
                     | (_, Inl e) \<Rightarrow>
                         ([Llm_invoke (Analysis_prompt headline content), Analysis_error e], None)))))"

text \<open>Step 3: the summary and the alert.\<close>

definition summary_stage ::
  "llm \<Rightarrow> nat \<Rightarrow> string option \<Rightarrow> string option \<Rightarrow> json \<Rightarrow> string option \<Rightarrow> event list" where
  "summary_stage llm n headline content risk_type u =
     (case llm n (Summary_prompt headline content risk_type) of
        Inl e \<Rightarrow> [Llm_invoke (Summary_prompt headline content risk_type), Summary_error e]
      | Inr summary_res \<Rightarrow>
          [Llm_invoke (Summary_prompt headline content risk_type),
           Email_sent risk_type summary_res u])"

text \<open>
  One pass of the loop body, the client having been called \<open>n\<close> times before: what is
  shown, the number of calls after it, and the exception that leaves the loop, if any
  (\<open>headline[:50]\<close> of an article without a title, outside every \<open>try\<close>).
\<close>

definition process_article :: "llm \<Rightarrow> nat \<Rightarrow> article \<Rightarrow> event list \<times> nat \<times> exn option" where
  "process_article llm n a =
     (let headline = field_get (title a);
          content = py_or (field_get (description a)) headline;
          u = field_get (url a)
      in case headline of
           None \<Rightarrow> ([], n, Some TypeError)
         | Some h \<Rightarrow>
             (case filter_stage llm n headline of
                (evs1, False) \<Rightarrow> (Processing (take 50 h) # evs1, Suc n, None)
              | (evs1, True) \<Rightarrow>
                  (case analysis_stage llm (Suc n) headline content of
                     (evs2, None) \<Rightarrow> (Processing (take 50 h) # evs1 @ evs2, Suc (Suc n), None)
                   | (evs2, Some risk_type) \<Rightarrow>
                       (Processing (take 50 h) # evs1 @ evs2 @
                          summary_stage llm (Suc (Suc n)) headline content risk_type u,
                        Suc (Suc (Suc n)), None))))"

fun run_articles :: "llm \<Rightarrow> nat \<Rightarrow> article list \<Rightarrow> event list \<times> exn option" where
  "run_articles llm n [] = ([], None)"
| "run_articles llm n (a # rest) =
     (case process_article llm n a of
        (evs, n', Some e) \<Rightarrow> (evs, Some e)
      | (evs, n', None) \<Rightarrow>
          (case run_articles llm n' rest of
             (evs', r) \<Rightarrow> (evs @ evs', r)))"

definition run_early_warning_system :: "llm \<Rightarrow> retrieval \<Rightarrow> event list \<times> exn option" where
  "run_early_warning_system llm api =
     (case fetch_news api of
        (log, articles) \<Rightarrow>
          (case run_articles llm 0 articles of
             (evs, r) \<Rightarrow> (Scan_started # log @ evs, r)))"

section \<open>\<open>main.py\<close>: the workflow\<close>

record agent_state =
  raw_headlines :: "article list"
  relevant_news :: "article list option"
  analyzed_risks :: "(article \<times> string) list option"
  final_email_body :: "string option"

definition wf_mock_articles :: "article list" where
  "wf_mock_articles =
     [\<lparr>title = Text ''Central Bank hikes rates by 0.75%'',
       description = Text ''Inflation control measures...'',
       url = Text ''http://test.com/1'',
       source_name = Missing\<rparr>,
      \<lparr>title = Text ''New K-Pop star debut'',
       description = Text ''Entertainment news...'',
       url = Text ''http://test.com/2'',
       source_name = Missing\<rparr>]"

definition fetch_news_node :: "retrieval \<Rightarrow> event list \<times> article list" where
  "fetch_news_node api =
     (case api of
        Inr articles \<Rightarrow> ([Step_banner 1], articles)
      | Inl e \<Rightarrow> ([Step_banner 1, Api_error e], wf_mock_articles))"

definition relevant_mark :: string where
  "relevant_mark = ''\"is_relevant\": true''"

text \<open>
  The body of the loop of \<open>filter_news_node\<close>: what is shown, the number of calls of the
  client after it, and the article if it was appended. The bare \<open>except\<close> swallows the
  \<open>KeyError\<close> of a missing title, an exception of the client, and the \<open>TypeError\<close> of
  slicing a \<open>None\<close> title in the \<open>print\<close> that follows the append.
\<close>

definition filter_one :: "llm \<Rightarrow> nat \<Rightarrow> article \<Rightarrow> event list \<times> nat \<times> article list" where
  "filter_one llm n news =
     (case field_item (title news) of
        Inl e \<Rightarrow> ([], n, [])
      | Inr t \<Rightarrow>
          (case llm n (Wf_filter_prompt t) of
             Inl e \<Rightarrow> ([Llm_invoke (Wf_filter_prompt t)], Suc n, [])
           | Inr res \<Rightarrow>
               if contains relevant_mark (lower res)
               then (Llm_invoke (Wf_filter_prompt t) #
                       (case t of Some s \<Rightarrow> [Wf_relevant (take 30 s)] | None \<Rightarrow> []),
                     Suc n, [news])
               else (Llm_invoke (Wf_filter_prompt t) #
                       (case t of Some s \<Rightarrow> [Wf_skipped (take 30 s)] | None \<Rightarrow> []),
                     Suc n, [])))"

fun filter_loop :: "llm \<Rightarrow> nat \<Rightarrow> article list \<Rightarrow> event list \<times> nat \<times> article list" where
  "filter_loop llm n [] = ([], n, [])"
| "filter_loop llm n (news # rest) =
     (case filter_one llm n news of
        (evs, n', kept) \<Rightarrow>
          (case filter_loop llm n' rest of
             (evs', n'', kept') \<Rightarrow> (evs @ evs', n'', kept @ kept')))"

definition filter_news_node :: "llm \<Rightarrow> nat \<Rightarrow> article list \<Rightarrow> event list \<times> nat \<times> article list" where
  "filter_news_node llm n raw_news =
     (case filter_loop llm n raw_news of
        (evs, n', relevant) \<Rightarrow> (Step_banner 2 # evs, n', relevant))"

text \<open>
  The body of the loop of \<open>analyze_risk_node\<close>, which has no \<open>try\<close>: an exception of the
  client leaves the loop and the node.
\<close>

definition analyze_one ::
  "llm \<Rightarrow> nat \<Rightarrow> article \<Rightarrow> event list \<times> nat \<times> (exn + (article \<times> string) list)" where
  "analyze_one llm n news =
     (case field_item (title news) of
        Inl e \<Rightarrow> ([], n, Inl e)
      | Inr t \<Rightarrow>
          (let content = py_or (field_get (description news)) t in
           case llm n (Wf_analysis_prompt t content) of
             Inl e \<Rightarrow> ([Llm_invoke (Wf_analysis_prompt t content)], Suc n, Inl e)
           | Inr res \<Rightarrow>
               if contains ''High'' res \<or> contains ''Medium'' res
               then ([Llm_invoke (Wf_analysis_prompt t content)], Suc n, Inr [(news, res)])
               else ([Llm_invoke (Wf_analysis_prompt t content)], Suc n, Inr [])))"

fun analyze_loop ::
  "llm \<Rightarrow> nat \<Rightarrow> article list \<Rightarrow> event list \<times> nat \<times> (exn + (article \<times> string) list)" where
  "analyze_loop llm n [] = ([], n, Inr [])"
| "analyze_loop llm n (news # rest) =
     (case analyze_one llm n news of
        (evs, n', Inl e) \<Rightarrow> (evs, n', Inl e)
      | (evs, n', Inr kept) \<Rightarrow>
          (case analyze_loop llm n' rest of
             (evs', n'', Inl e) \<Rightarrow> (evs @ evs', n'', Inl e)
           | (evs', n'', Inr kept') \<Rightarrow> (evs @ evs', n'', Inr (kept @ kept'))))"

definition analyze_risk_node ::
  "llm \<Rightarrow> nat \<Rightarrow> article list \<Rightarrow> event list \<times> nat \<times> (exn + (article \<times> string) list)" where
  "analyze_risk_node llm n relevant =
     (case analyze_loop llm n relevant of
        (evs, n', r) \<Rightarrow> (Step_banner 3 # evs, n', r))"

text \<open>\<open>"\n".join(...)\<close>\<close>

fun join_lines :: "string list \<Rightarrow> string" where
  "join_lines [] = []"
| "join_lines [x] = x"
| "join_lines (x # y # ys) = x @ newline # join_lines (y # ys)"

definition no_risk_body :: string where
  "no_risk_body = ''No significant risks detected.''"

definition report_node ::
  "llm \<Rightarrow> nat \<Rightarrow> (article \<times> string) list \<Rightarrow> event list \<times> (exn + string)" where
  "report_node llm n risks =
     (if risks = [] then ([Step_banner 4], Inr no_risk_body)
      else
        (let input_text = join_lines (map snd risks) in
         case llm n (Wf_writer_prompt input_text) of
           Inl e \<Rightarrow> ([Step_banner 4, Llm_invoke (Wf_writer_prompt input_text)], Inl e)
         | Inr email_body \<Rightarrow>
             ([Step_banner 4, Llm_invoke (Wf_writer_prompt input_text), Final_email email_body],
              Inr email_body)))"

definition check_relevance :: "article list \<Rightarrow> event list \<times> string" where
  "check_relevance relevant =
     (if relevant = [] then ([No_relevant_news], ''end'') else ([], ''analyze''))"

text \<open>
  \<open>app.invoke\<close> on the compiled graph: the nodes run along the edges
  \<open>fetch\<close>, \<open>filter\<close>, then \<open>analyze\<close> and \<open>report\<close> or the end, as \<open>check_relevance\<close>
  says; each node's result is written into the state; an exception of a node ends the
  run. The result is what was shown and the final state or the exception.
\<close>

definition app_invoke :: "llm \<Rightarrow> retrieval \<Rightarrow> event list \<times> (exn + agent_state)" where
  "app_invoke llm api =
     (case fetch_news_node api of
        (evs0, articles) \<Rightarrow>
          (case filter_news_node llm 0 articles of
             (evs1, n1, relevant) \<Rightarrow>
               (case check_relevance relevant of
                  (evs2, route) \<Rightarrow>
                    if route = ''end''
                    then (evs0 @ evs1 @ evs2,
                          Inr \<lparr>raw_headlines = articles, relevant_news = Some relevant,
                               analyzed_risks = None, final_email_body = None\<rparr>)
                    else
                      (case analyze_risk_node llm n1 relevant of
                         (evs3, n3, Inl e) \<Rightarrow> (evs0 @ evs1 @ evs2 @ evs3, Inl e)
                       | (evs3, n3, Inr risks) \<Rightarrow>
                           (case report_node llm n3 risks of
                              (evs4, Inl e) \<Rightarrow> (evs0 @ evs1 @ evs2 @ evs3 @ evs4, Inl e)
                            | (evs4, Inr body) \<Rightarrow>
                                (evs0 @ evs1 @ evs2 @ evs3 @ evs4,
                                 Inr \<lparr>raw_headlines = articles, relevant_news = Some relevant,
                                      analyzed_risks = Some risks,
                                      final_email_body = Some body\<rparr>))))))"

section \<open>Stages of a run\<close>

text \<open>
  The stage an event belongs to: a call of the client by the template of its prompt, a
  delivery by the alert or the final email it shows. Every other event is a log line.
\<close>

datatype stage = Stage_filter | Stage_analyze | Stage_summarize | Stage_deliver

fun stage_of :: "event \<Rightarrow> stage list" where
  "stage_of (Llm_invoke (Filter_prompt h)) = [Stage_filter]"
| "stage_of (Llm_invoke (Analysis_prompt h c)) = [Stage_analyze]"
| "stage_of (Llm_invoke (Summary_prompt h c r)) = [Stage_summarize]"
| "stage_of (Llm_invoke (Wf_filter_prompt h)) = [Stage_filter]"
| "stage_of (Llm_invoke (Wf_analysis_prompt h c)) = [Stage_analyze]"
| "stage_of (Llm_invoke (Wf_writer_prompt t)) = [Stage_summarize]"
| "stage_of (Email_sent r s u) = [Stage_deliver]"
| "stage_of (Final_email b) = [Stage_deliver]"
| "stage_of e = []"

definition stages :: "event list \<Rightarrow> stage list" where
  "stages evs = concat (map stage_of evs)"

text \<open>The headline a prompt was formatted with.\<close>

fun headline_of :: "prompt \<Rightarrow> string option" where
  "headline_of (Filter_prompt h) = h"
| "headline_of (Analysis_prompt h c) = h"
| "headline_of (Summary_prompt h c r) = h"
| "headline_of (Wf_filter_prompt h) = h"
| "headline_of (Wf_analysis_prompt h c) = h"
| "headline_of (Wf_writer_prompt t) = None"

section \<open>Concrete articles and completion clients\<close>

definition bank_article :: article where
  "bank_article =
     \<lparr>title = Text ''Central Bank hikes rates by 0.75%'',
      description = Text ''Inflation control measures'',
      url = Text ''http://test.com/1'',
      source_name = Missing\<rparr>"

definition kpop_article :: article where
  "kpop_article =
     \<lparr>title = Text ''New K-Pop star debut'',
      description = Text ''Entertainment news'',
      url = Text ''http://test.com/2'',
      source_name = Missing\<rparr>"

definition relevant_text :: string where
  "relevant_text = ''{\"is_relevant\": true}''"

definition irrelevant_text :: string where
  "irrelevant_text = ''{\"is_relevant\": false, \"reason\": \"entertainment\"}''"

definition low_alert_text :: string where
  "low_alert_text =
     ''{\"risk_type\": \"Market Risk\", \"impact_level\": \"Low\", \"send_alert\": true}''"

definition nested_text :: string where
  "nested_text = ''{\"is_relevant\": false, \"note\": {\"is_relevant\": true}}''"

text \<open>A client whose analysis says: low impact, send the alert.\<close>

definition llm_low_alert :: llm where
  "llm_low_alert i p =
     (if i = 0 then Inr relevant_text
      else if i = 1 then Inr low_alert_text
      else Inr ''summary'')"

text \<open>A client whose analysis is no JSON but mentions a high risk.\<close>

definition llm_unparsed :: llm where
  "llm_unparsed i p =
     (if i = 0 then Inr relevant_text
      else if i = 1 then Inr ''High risk''
      else Inr ''report'')"


text \<open>A client that accepts two headlines and then fails.\<close>

definition llm_crash :: llm where
  "llm_crash i p = (if i < 2 then Inr relevant_text else Inl (Raised ''model crashed''))"

text \<open>A client that finds every headline irrelevant.\<close>

definition llm_reject :: llm where
  "llm_reject i p = Inr irrelevant_text"

text \<open>A client that answers \<open>null\<close> to everything.\<close>

definition llm_null :: llm where
  "llm_null i p = Inr ''null''"

section \<open>Properties of the string functions\<close>










section \<open>The parser of completions\<close>


section \<open>Stages and events of the two scripts\<close>

lemma stages_Nil: "stages [] = []"
  by (simp add: stages_def)

lemma stages_Cons: "stages (e # evs) = stage_of e @ stages evs"
  by (simp add: stages_def)

lemma stages_append: "stages (xs @ ys) = stages xs @ stages ys"
  by (simp add: stages_def)

lemmas stages_simps = stages_Nil stages_Cons stages_append

subsection \<open>The stages of the linear script\<close>

lemma filter_stage_stages: "stages (fst (filter_stage llm n h)) = [Stage_filter]"
  by (simp add: filter_stage_def stages_simps Let_def split: sum.splits)

lemma analysis_stage_stages: "stages (fst (analysis_stage llm n h c)) = [Stage_analyze]"
  by (simp add: analysis_stage_def stages_simps Let_def split: sum.splits prod.splits)

lemma summary_stage_stages:
  "stages (summary_stage llm n h c r u) =
     (case llm n (Summary_prompt h c r) of
        Inl e \<Rightarrow> [Stage_summarize]
      | Inr s \<Rightarrow> [Stage_summarize, Stage_deliver])"
  by (simp add: summary_stage_def stages_simps split: sum.splits)

lemma filter_stage_headline:
  "Llm_invoke p \<in> set (fst (filter_stage llm n h)) \<Longrightarrow> headline_of p = h"
  by (auto simp: filter_stage_def Let_def split: sum.splits if_splits)

lemma analysis_stage_headline:
  "Llm_invoke p \<in> set (fst (analysis_stage llm n h c)) \<Longrightarrow> headline_of p = h"
  by (auto simp: analysis_stage_def Let_def split: sum.splits if_splits prod.splits)

lemma summary_stage_headline:
  "Llm_invoke p \<in> set (summary_stage llm n h c r u) \<Longrightarrow> headline_of p = h"
  by (auto simp: summary_stage_def split: sum.splits)




lemma analysis_stage_Some:
  assumes "snd (analysis_stage llm n h c) = Some rt"
  shows "\<exists>raw v. llm n (Analysis_prompt h c) = Inr raw \<and>
           py_get (parse_json_response raw) (key ''send_alert'') = Inr v \<and> truthy v"
  using assms by (auto simp: analysis_stage_def Let_def split: sum.splits if_splits prod.splits)

lemma process_article_no_title:
  "field_get (title a) = None \<Longrightarrow> process_article llm n a = ([], n, Some TypeError)"
  by (simp add: process_article_def)

lemma process_article_cases:
  assumes "field_get (title a) = Some h"
  obtains
    (rejected) evs1 where "filter_stage llm n (Some h) = (evs1, False)"
      "process_article llm n a = (Processing (take 50 h) # evs1, Suc n, None)"
  | (safe) evs1 evs2 where "filter_stage llm n (Some h) = (evs1, True)"
      "analysis_stage llm (Suc n) (Some h) (py_or (field_get (description a)) (Some h)) = (evs2, None)"
      "process_article llm n a = (Processing (take 50 h) # evs1 @ evs2, Suc (Suc n), None)"
  | (alert) evs1 evs2 rt where "filter_stage llm n (Some h) = (evs1, True)"
      "analysis_stage llm (Suc n) (Some h) (py_or (field_get (description a)) (Some h)) = (evs2, Some rt)"
      "process_article llm n a =
         (Processing (take 50 h) # evs1 @ evs2 @
            summary_stage llm (Suc (Suc n)) (Some h) (py_or (field_get (description a)) (Some h)) rt
              (field_get (url a)),
          Suc (Suc (Suc n)), None)"
proof (cases "filter_stage llm n (Some h)")
  case (Pair evs1 ok)
  show ?thesis
  proof (cases ok)
    case False
    with Pair assms show ?thesis by (intro rejected [of evs1]) (simp_all add: process_article_def Let_def)
  next
    case True
    show ?thesis
    proof (cases "analysis_stage llm (Suc n) (Some h) (py_or (field_get (description a)) (Some h))")
      case inner: (Pair evs2 r)
      show ?thesis
      proof (cases r)
        case None
        with Pair True inner assms show ?thesis
          by (intro safe [of evs1 evs2]) (simp_all add: process_article_def Let_def)
      next
        case (Some rt)
        with Pair True inner assms show ?thesis
          by (intro alert [of evs1 evs2 rt]) (simp_all add: process_article_def Let_def)
      qed
    qed
  qed
qed

lemma process_article_titled:
  "field_get (title a) = Some h \<Longrightarrow> snd (snd (process_article llm n a)) = None"
  by (erule process_article_cases [of a h llm n]) simp_all

lemma process_article_stages:
  "prefix (stages (fst (process_article llm n a)))
     [Stage_filter, Stage_analyze, Stage_summarize, Stage_deliver]"
proof (cases "field_get (title a)")
  case None
  then show ?thesis by (simp add: process_article_no_title stages_simps)
next
  case (Some h)
  then show ?thesis
  proof (cases rule: process_article_cases [of a h llm n])
    case (rejected evs1)
    then show ?thesis
      using filter_stage_stages [of llm n "Some h"] by (simp add: stages_simps)
  next
    case (safe evs1 evs2)
    then show ?thesis
      using filter_stage_stages [of llm n "Some h"]
        analysis_stage_stages [of llm "Suc n" "Some h" "py_or (field_get (description a)) (Some h)"]
      by (simp add: stages_simps)
  next
    case (alert evs1 evs2 rt)
    then show ?thesis
      using filter_stage_stages [of llm n "Some h"]
        analysis_stage_stages [of llm "Suc n" "Some h" "py_or (field_get (description a)) (Some h)"]
      by (simp add: stages_simps summary_stage_stages split: sum.splits)
  qed
qed

lemma process_article_headline:
  assumes "Llm_invoke p \<in> set (fst (process_article llm n a))"
  shows "headline_of p = field_get (title a)"
proof (cases "field_get (title a)")
  case None
  with assms show ?thesis by (simp add: process_article_no_title)
next
  case (Some h)
  then show ?thesis
  proof (cases rule: process_article_cases [of a h llm n])
    case (rejected evs1)
    with assms Some show ?thesis
      using filter_stage_headline [of p llm n "Some h"] by auto
  next
    case (safe evs1 evs2)
    with assms Some show ?thesis
      using filter_stage_headline [of p llm n "Some h"]
        analysis_stage_headline [of p llm "Suc n" "Some h" "py_or (field_get (description a)) (Some h)"]
      by auto
  next
    case (alert evs1 evs2 rt)
    with assms Some show ?thesis
      using filter_stage_headline [of p llm n "Some h"]
        analysis_stage_headline [of p llm "Suc n" "Some h" "py_or (field_get (description a)) (Some h)"]
        summary_stage_headline [of p llm "Suc (Suc n)" "Some h"]
      by auto
  qed
qed

lemma process_article_started:
  assumes "snd (snd (process_article llm n a)) = None"
  shows "stages (fst (process_article llm n a)) \<noteq> []"
proof (cases "field_get (title a)")
  case None
  with assms show ?thesis by (simp add: process_article_no_title)
next
  case (Some h)
  then show ?thesis
    using filter_stage_stages [of llm n "Some h"]
    by (cases rule: process_article_cases [of a h llm n]) (auto simp: stages_simps)
qed

subsection \<open>The nodes of the workflow\<close>

lemma filter_one_events:
  "No_relevant_news \<notin> set (fst (filter_one llm n news)) \<and>
   set (stages (fst (filter_one llm n news))) \<subseteq> {Stage_filter}"
  by (auto simp: filter_one_def stages_simps split: sum.splits option.splits)

lemma filter_loop_events:
  "No_relevant_news \<notin> set (fst (filter_loop llm n raw_news)) \<and>
   set (stages (fst (filter_loop llm n raw_news))) \<subseteq> {Stage_filter}"
proof (induction raw_news arbitrary: n)
  case Nil
  then show ?case by (simp add: stages_simps)
next
  case (Cons news rest)
  obtain evs n' kept where one: "filter_one llm n news = (evs, n', kept)"
    by (cases "filter_one llm n news") auto
  obtain evs' n'' kept' where loop: "filter_loop llm n' rest = (evs', n'', kept')"
    by (cases "filter_loop llm n' rest") auto
  from filter_one_events [of llm n news] one
  have a: "No_relevant_news \<notin> set evs" "set (stages evs) \<subseteq> {Stage_filter}" by simp_all
  from Cons [of n'] loop
  have b: "No_relevant_news \<notin> set evs'" "set (stages evs') \<subseteq> {Stage_filter}" by simp_all
  from a b show ?case by (simp add: one loop stages_simps)
qed

lemma filter_news_node_events:
  "No_relevant_news \<notin> set (fst (filter_news_node llm n raw_news)) \<and>
   set (stages (fst (filter_news_node llm n raw_news))) \<subseteq> {Stage_filter}"
  using filter_loop_events [of llm n raw_news]
  by (cases "filter_loop llm n raw_news") (simp add: filter_news_node_def stages_simps)

lemma fetch_news_node_events:
  "No_relevant_news \<notin> set (fst (fetch_news_node api)) \<and> stages (fst (fetch_news_node api)) = []"
  by (simp add: fetch_news_node_def stages_simps split: sum.splits)




subsection \<open>Concrete completions\<close>



lemma parse_nested_text:
  "parse_json_response nested_text =
     JObject [(key ''is_relevant'', JBool False),
              (key ''note'', JObject [(key ''is_relevant'', JBool True)])]"
  by code_simp


section \<open>The gates of the two scripts\<close>




text \<open>
  Claim C2, as amended. In the linear script an alert is delivered for an article only
  if its analysis answer decodes to an object whose \<open>send_alert\<close> is true in Python's
  sense; so none is delivered when the answer fails to parse or \<open>send_alert\<close> is false
  or missing, and \<open>impact_level\<close> plays no part. In the workflow an article whose
  analysis call returns is kept for the report exactly when the raw answer contains
  \<open>High\<close> or \<open>Medium\<close>, parsed or not; when no article is kept the report is the fixed
  text \<open>No significant risks detected.\<close> and the client is not called.
\<close>

theorem analysis_gates:
  "(Stage_deliver \<in> set (stages (fst (process_article llm n a))) \<longrightarrow>
      (\<exists>raw v.
         llm (Suc n) (Analysis_prompt (field_get (title a))
                        (py_or (field_get (description a)) (field_get (title a)))) = Inr raw \<and>
         py_get (parse_json_response raw) (key ''send_alert'') = Inr v \<and> truthy v)) \<and>
   (field_item (title news) = Inr t \<and>
    llm m (Wf_analysis_prompt t (py_or (field_get (description news)) t)) = Inr res \<longrightarrow>
      snd (snd (analyze_one llm m news)) =
        Inr (if contains ''High'' res \<or> contains ''Medium'' res then [(news, res)] else [])) \<and>
   report_node llm k [] = ([Step_banner 4], Inr no_risk_body)"
proof (intro conjI impI)
  assume d: "Stage_deliver \<in> set (stages (fst (process_article llm n a)))"
  show "\<exists>raw v.
         llm (Suc n) (Analysis_prompt (field_get (title a))
                        (py_or (field_get (description a)) (field_get (title a)))) = Inr raw \<and>
         py_get (parse_json_response raw) (key ''send_alert'') = Inr v \<and> truthy v"
  proof (cases "field_get (title a)")
    case None
    with d show ?thesis by (simp add: process_article_no_title stages_simps)
  next
    case (Some h)
    then show ?thesis
    proof (cases rule: process_article_cases [of a h llm n])
      case (rejected evs1)
      with d filter_stage_stages [of llm n "Some h"] show ?thesis
        by (simp add: stages_simps)
    next
      case (safe evs1 evs2)
      with d filter_stage_stages [of llm n "Some h"]
        analysis_stage_stages [of llm "Suc n" "Some h" "py_or (field_get (description a)) (Some h)"]
      show ?thesis by (simp add: stages_simps)
    next
      case (alert evs1 evs2 rt)
      then have "snd (analysis_stage llm (Suc n) (Some h)
                   (py_or (field_get (description a)) (Some h))) = Some rt"
        by simp
      from analysis_stage_Some [OF this] Some show ?thesis by simp
    qed
  qed
next
  assume "field_item (title news) = Inr t \<and>
    llm m (Wf_analysis_prompt t (py_or (field_get (description news)) t)) = Inr res"
  then show "snd (snd (analyze_one llm m news)) =
        Inr (if contains ''High'' res \<or> contains ''Medium'' res then [(news, res)] else [])"
    by (simp add: analyze_one_def Let_def)
next
  show "report_node llm k [] = ([Step_banner 4], Inr no_risk_body)"
    by (simp add: report_node_def)
qed

text \<open>
  The theorem at the scenario's first article: the linear script delivers for the
  low-impact client, whose answer has \<open>send_alert\<close> true, and the workflow keeps the
  answer \<open>High risk\<close>.
\<close>

theorem analysis_gates_witness:
  "Stage_deliver \<in> set (stages (fst (process_article llm_low_alert 0 bank_article))) \<and>
   llm_low_alert (Suc 0) (Analysis_prompt (field_get (title bank_article))
       (py_or (field_get (description bank_article)) (field_get (title bank_article)))) = Inr low_alert_text \<and>
   py_get (parse_json_response low_alert_text) (key ''send_alert'') = Inr (JBool True) \<and>
   field_item (title bank_article) = Inr (Some ''Central Bank hikes rates by 0.75%'') \<and>
   llm_unparsed 1 (Wf_analysis_prompt (Some ''Central Bank hikes rates by 0.75%'')
       (py_or (field_get (description bank_article)) (Some ''Central Bank hikes rates by 0.75%''))) = Inr ''High risk'' \<and>
   snd (snd (analyze_one llm_unparsed 1 bank_article)) = Inr [(bank_article, ''High risk'')]"
proof -
  have d: "Stage_deliver \<in> set (stages (fst (process_article llm_low_alert 0 bank_article)))"
    by code_simp
  have l: "llm_low_alert (Suc 0) (Analysis_prompt (field_get (title bank_article))
       (py_or (field_get (description bank_article)) (field_get (title bank_article)))) = Inr low_alert_text"
    by (simp add: llm_low_alert_def)
  have f: "field_item (title bank_article) = Inr (Some ''Central Bank hikes rates by 0.75%'')"
    by (simp add: bank_article_def)
  have u: "llm_unparsed 1 (Wf_analysis_prompt (Some ''Central Bank hikes rates by 0.75%'')
       (py_or (field_get (description bank_article)) (Some ''Central Bank hikes rates by 0.75%''))) = Inr ''High risk''"
    by (simp add: llm_unparsed_def)
  have c: "contains ''High'' ''High risk''"
    by code_simp
  from analysis_gates [where llm = llm_low_alert and n = 0 and a = bank_article] d
  have "(\<exists>raw v.
         llm_low_alert (Suc 0) (Analysis_prompt (field_get (title bank_article))
                        (py_or (field_get (description bank_article)) (field_get (title bank_article)))) = Inr raw \<and>
         py_get (parse_json_response raw) (key ''send_alert'') = Inr v \<and> truthy v)"
    by (simp only: simp_thms)
  from analysis_gates [where llm = llm_unparsed and m = 1 and news = bank_article
       and t = "Some ''Central Bank hikes rates by 0.75%''" and res = "''High risk''"] f u c
  have k: "snd (snd (analyze_one llm_unparsed 1 bank_article)) = Inr [(bank_article, ''High risk'')]"
    by (simp only: simp_thms if_True)
  moreover have "py_get (parse_json_response low_alert_text) (key ''send_alert'') = Inr (JBool True)"
    by code_simp
  ultimately show ?thesis using d l f u k by (simp only: simp_thms)
qed

text \<open>
  Claim C2 as stated fails in both scripts. In the linear script the analysis answer
  has \<open>impact_level\<close> Low and the alert is sent; in the workflow the analysis answer
  \<open>High risk\<close> is no JSON and the article is reported all the same.
\<close>

theorem low_or_unparsed_analysis_is_reported:
  "py_get (parse_json_response low_alert_text) (key ''impact_level'') = Inr (JStr (key ''Low'')) \<and>
   Email_sent (JStr (key ''Market Risk'')) ''summary'' (Some ''http://test.com/1'')
     \<in> set (fst (run_early_warning_system llm_low_alert (Inr [bank_article]))) \<and>
   json_loads (clean ''High risk'') = None \<and>
   app_invoke llm_unparsed (Inr [bank_article]) =
     ([Step_banner 1, Step_banner 2,
       Llm_invoke (Wf_filter_prompt (Some ''Central Bank hikes rates by 0.75%'')),
       Wf_relevant ''Central Bank hikes rates by 0.'',
       Step_banner 3,
       Llm_invoke (Wf_analysis_prompt (Some ''Central Bank hikes rates by 0.75%'')
                     (Some ''Inflation control measures'')),
       Step_banner 4,
       Llm_invoke (Wf_writer_prompt ''High risk''),
       Final_email ''report''],
      Inr \<lparr>raw_headlines = [bank_article], relevant_news = Some [bank_article],
           analyzed_risks = Some [(bank_article, ''High risk'')],
           final_email_body = Some ''report''\<rparr>)"
  by code_simp

section \<open>The order of a run of the linear script\<close>

text \<open>
  Claim C8. What a run of the linear script shows is the concatenation, in the order of
  the retrieved articles, of one trace per article. The stages of each trace are an
  initial part of filter, analyze, summarize, deliver, so that no stage runs twice and
  none runs after a later one or after the article was rejected or delivered; every call
  of the client in a trace is for the headline of its own article; and when the run ends
  without an exception every article has been through the filter stage at least.
\<close>

theorem linear_run_in_order:
  "\<exists>trs. list_all2
            (\<lambda>a tr.
               prefix (stages tr) [Stage_filter, Stage_analyze, Stage_summarize, Stage_deliver] \<and>
               (\<forall>p. Llm_invoke p \<in> set tr \<longrightarrow> headline_of p = field_get (title a)))
            articles trs \<and>
         fst (run_articles llm n articles) = concat trs \<and>
         (snd (run_articles llm n articles) = None \<longrightarrow> (\<forall>tr\<in>set trs. stages tr \<noteq> []))"
proof (induction articles arbitrary: n)
  case Nil
  then show ?case by simp
next
  case (Cons a rest)
  obtain evs n' r where pa: "process_article llm n a = (evs, n', r)"
    by (cases "process_article llm n a") auto
  have here: "prefix (stages evs) [Stage_filter, Stage_analyze, Stage_summarize, Stage_deliver] \<and>
      (\<forall>p. Llm_invoke p \<in> set evs \<longrightarrow> headline_of p = field_get (title a))"
    using process_article_stages [of llm n a] process_article_headline [of _ llm n a] pa by auto
  let ?ok = "\<lambda>a tr.
      prefix (stages tr) [Stage_filter, Stage_analyze, Stage_summarize, Stage_deliver] \<and>
      (\<forall>p. Llm_invoke p \<in> set tr \<longrightarrow> headline_of p = field_get (title a))"
  show ?case
  proof (cases r)
    case None
    have started: "stages evs \<noteq> []"
      using process_article_started [of llm n a] pa None by simp
    have ra: "run_articles llm n (a # rest) =
        (evs @ fst (run_articles llm n' rest), snd (run_articles llm n' rest))"
      using pa None by (simp split: prod.splits)
    from Cons.IH [of n'] obtain trs where
      trs: "list_all2 ?ok rest trs \<and> fst (run_articles llm n' rest) = concat trs \<and>
        (snd (run_articles llm n' rest) = None \<longrightarrow> (\<forall>tr\<in>set trs. stages tr \<noteq> []))"
      by (rule exE)
    show ?thesis
    proof (rule exI [of _ "evs # trs"], intro conjI)
      show "list_all2 ?ok (a # rest) (evs # trs)"
        using here trs by simp
      show "fst (run_articles llm n (a # rest)) = concat (evs # trs)"
        using ra trs by simp
      show "snd (run_articles llm n (a # rest)) = None \<longrightarrow>
          (\<forall>tr\<in>set (evs # trs). stages tr \<noteq> [])"
        using ra trs started by simp
    qed
  next
    case (Some e)
    have ra: "run_articles llm n (a # rest) = (evs, Some e)"
      using pa Some by simp
    have idle: "list_all2 ?ok rest (replicate (length rest) [])"
      by (simp add: list_all2_conv_all_nth stages_simps)
    show ?thesis
    proof (rule exI [of _ "evs # replicate (length rest) []"], intro conjI)
      show "list_all2 ?ok (a # rest) (evs # replicate (length rest) [])"
        using here idle by simp
      show "fst (run_articles llm n (a # rest)) = concat (evs # replicate (length rest) [])"
        using ra by simp
      show "snd (run_articles llm n (a # rest)) = None \<longrightarrow>
          (\<forall>tr\<in>set (evs # replicate (length rest) []). stages tr \<noteq> [])"
        using ra by simp
    qed
  qed
qed

text \<open>The theorem at the two articles of the specification's scenario.\<close>

theorem linear_run_in_order_witness:
  "snd (run_articles llm_low_alert 0 [bank_article, kpop_article]) = None \<and>
   (\<exists>trs. list_all2
            (\<lambda>a tr.
               prefix (stages tr) [Stage_filter, Stage_analyze, Stage_summarize, Stage_deliver] \<and>
               (\<forall>p. Llm_invoke p \<in> set tr \<longrightarrow> headline_of p = field_get (title a)))
            [bank_article, kpop_article] trs \<and>
         fst (run_articles llm_low_alert 0 [bank_article, kpop_article]) = concat trs \<and>
         (\<forall>tr\<in>set trs. stages tr \<noteq> []))"
proof -
  have h: "snd (run_articles llm_low_alert 0 [bank_article, kpop_article]) = None"
    by code_simp
  show ?thesis
    using linear_run_in_order [of "[bank_article, kpop_article]" llm_low_alert 0] h
    by (simp only: simp_thms)
qed

section \<open>The short circuit of the workflow\<close>

text \<open>
  Claim C3. In the workflow, whenever the filter node keeps no article, the run shows
  the fetch and filter events followed by the one notice \<open>No relevant news found\<close>, which
  occurs exactly once and is the only nothing-to-report output; no event of the run belongs
  to the analyze, summarize or deliver stage, so the client is called for filter prompts
  only; and the run ends in a state without \<open>analyzed_risks\<close> and without
  \<open>final_email_body\<close>.
\<close>

theorem no_relevant_news_short_circuit:
  assumes "snd (snd (filter_news_node llm 0 (snd (fetch_news_node api)))) = []"
  shows "fst (app_invoke llm api) =
           fst (fetch_news_node api) @
           fst (filter_news_node llm 0 (snd (fetch_news_node api))) @ [No_relevant_news] \<and>
         count_list (fst (app_invoke llm api)) No_relevant_news = 1 \<and>
         set (stages (fst (app_invoke llm api))) \<subseteq> {Stage_filter} \<and>
         snd (app_invoke llm api) =
           Inr \<lparr>raw_headlines = snd (fetch_news_node api), relevant_news = Some [],
                analyzed_risks = None, final_email_body = None\<rparr>"
proof -
  obtain evs0 articles where f: "fetch_news_node api = (evs0, articles)"
    by (cases "fetch_news_node api") auto
  obtain evs1 n1 relevant where g: "filter_news_node llm 0 articles = (evs1, n1, relevant)"
    by (cases "filter_news_node llm 0 articles") auto
  have r: "relevant = []"
    using assms f g by simp
  have run: "app_invoke llm api =
      (evs0 @ evs1 @ [No_relevant_news],
       Inr \<lparr>raw_headlines = articles, relevant_news = Some [],
            analyzed_risks = None, final_email_body = None\<rparr>)"
    using f g r by (simp add: app_invoke_def check_relevance_def)
  have e0: "No_relevant_news \<notin> set evs0" "stages evs0 = []"
    using fetch_news_node_events [of api] f by simp_all
  have e1: "No_relevant_news \<notin> set evs1" "set (stages evs1) \<subseteq> {Stage_filter}"
    using filter_news_node_events [of llm 0 articles] g by simp_all
  have c: "count_list (evs0 @ evs1 @ [No_relevant_news]) No_relevant_news = 1"
    using e0 e1 by (simp add: count_list_0_iff)
  have s: "set (stages (evs0 @ evs1 @ [No_relevant_news])) \<subseteq> {Stage_filter}"
    using e0 e1 by (simp add: stages_simps)
  show ?thesis
    using run f g c s by simp
qed

text \<open>The theorem for a client that rejects the one retrieved headline.\<close>

theorem no_relevant_news_short_circuit_witness:
  "snd (snd (filter_news_node llm_reject 0 (snd (fetch_news_node (Inr [kpop_article]))))) = [] \<and>
   fst (app_invoke llm_reject (Inr [kpop_article])) =
     [Step_banner 1, Step_banner 2,
      Llm_invoke (Wf_filter_prompt (Some ''New K-Pop star debut'')),
      Wf_skipped ''New K-Pop star debut'', No_relevant_news] \<and>
   count_list (fst (app_invoke llm_reject (Inr [kpop_article]))) No_relevant_news = 1 \<and>
   set (stages (fst (app_invoke llm_reject (Inr [kpop_article])))) \<subseteq> {Stage_filter} \<and>
   snd (app_invoke llm_reject (Inr [kpop_article])) =
     Inr \<lparr>raw_headlines = [kpop_article], relevant_news = Some [],
          analyzed_risks = None, final_email_body = None\<rparr>"
proof -
  have h: "snd (snd (filter_news_node llm_reject 0 (snd (fetch_news_node (Inr [kpop_article]))))) = []"
    by code_simp
  have a: "fst (fetch_news_node (Inr [kpop_article])) = [Step_banner 1]"
    "snd (fetch_news_node (Inr [kpop_article])) = [kpop_article]"
    by (simp_all add: fetch_news_node_def)
  have b: "fst (filter_news_node llm_reject 0 [kpop_article]) =
     [Step_banner 2, Llm_invoke (Wf_filter_prompt (Some ''New K-Pop star debut'')),
      Wf_skipped ''New K-Pop star debut'']"
    by code_simp
  from no_relevant_news_short_circuit [of llm_reject "Inr [kpop_article]", OF h]
  show ?thesis using h a b by (simp add: stages_simps)
qed

section \<open>The filter gates\<close>




section \<open>Failures of the completion client\<close>

text \<open>
  In the linear script every call of the client is inside a \<open>try\<close>: whatever the client
  does, an article with a title ends its pass without an exception, and the run goes on
  with the next article.
\<close>

lemma linear_failure_is_isolated:
  assumes "field_get (title a) = Some h"
  shows "\<exists>evs n'. process_article llm n a = (evs, n', None) \<and>
           run_articles llm n (a # rest) =
             (evs @ fst (run_articles llm n' rest), snd (run_articles llm n' rest))"
proof -
  obtain evs n' where pa: "process_article llm n a = (evs, n', None)"
    using process_article_titled [OF assms, of llm n] by (cases "process_article llm n a") auto
  then show ?thesis by (cases "run_articles llm n' rest") simp
qed

lemma run_articles_titled:
  "(\<And>a. a \<in> set articles \<Longrightarrow> field_get (title a) \<noteq> None) \<Longrightarrow>
     snd (run_articles llm n articles) = None"
proof (induction articles arbitrary: n)
  case Nil
  then show ?case by simp
next
  case (Cons a rest)
  then obtain h where h: "field_get (title a) = Some h" by fastforce
  obtain evs n' where pa: "process_article llm n a = (evs, n', None)"
    using process_article_titled [OF h, of llm n] by (cases "process_article llm n a") auto
  have "snd (run_articles llm n' rest) = None"
    using Cons by simp
  then show ?case using pa by (cases "run_articles llm n' rest") simp
qed

lemma mock_articles_titled: "a \<in> set mock_articles \<Longrightarrow> field_get (title a) \<noteq> None"
  by (auto simp: mock_articles_def)

text \<open>
  Claim C5 fails in the workflow, whose \<open>analyze_risk_node\<close> calls the client outside
  any \<open>try\<close>. Two articles pass the filter; the client fails on the analysis of the
  first; the exception ends the run, the second article is never analysed and no report
  is written.
\<close>

theorem workflow_analysis_failure_aborts:
  "app_invoke llm_crash (Inr [bank_article, kpop_article]) =
     ([Step_banner 1, Step_banner 2,
       Llm_invoke (Wf_filter_prompt (Some ''Central Bank hikes rates by 0.75%'')),
       Wf_relevant ''Central Bank hikes rates by 0.'',
       Llm_invoke (Wf_filter_prompt (Some ''New K-Pop star debut'')),
       Wf_relevant ''New K-Pop star debut'',
       Step_banner 3,
       Llm_invoke (Wf_analysis_prompt (Some ''Central Bank hikes rates by 0.75%'')
                     (Some ''Inflation control measures''))],
      Inl (Raised ''model crashed''))"
  by code_simp

section \<open>Retrieval\<close>

text \<open>
  Claim C7. When the retrieval call raises, both scripts go on with their fixed
  fixture: three articles in the linear script, two in the workflow, each list holding
  a central-bank headline, which is financially relevant, and a consumer-technology or
  entertainment headline, which is not. The failure does not leave \<open>fetch_news\<close> or
  \<open>fetch_news_node\<close>: the linear run ends without an exception, and the workflow ends
  as it does when the service returns the fixture itself.
\<close>

theorem retrieval_failure_falls_back:
  "fetch_news (Inl e) = ([Fetch_failed e], mock_articles) \<and>
   fetch_news_node (Inl e) = ([Step_banner 1, Api_error e], wf_mock_articles) \<and>
   2 \<le> length mock_articles \<and>
   2 \<le> length wf_mock_articles \<and>
   map title mock_articles =
     [Text ''Central Bank announces surprise 0.5% interest rate hike due to inflation fears'',
      Text ''New iPhone 16 features leaked ahead of launch'',
      Text ''Major Real Estate Developer files for bankruptcy protection''] \<and>
   map title wf_mock_articles =
     [Text ''Central Bank hikes rates by 0.75%'', Text ''New K-Pop star debut''] \<and>
   run_early_warning_system llm (Inl e) =
     (Scan_started # Fetch_failed e # fst (run_articles llm 0 mock_articles), None) \<and>
   snd (app_invoke llm (Inl e)) = snd (app_invoke llm (Inr wf_mock_articles))"
proof -
  have "snd (run_articles llm 0 mock_articles) = None"
    by (rule run_articles_titled) (rule mock_articles_titled)
  then have "run_early_warning_system llm (Inl e) =
     (Scan_started # Fetch_failed e # fst (run_articles llm 0 mock_articles), None)"
    by (cases "run_articles llm 0 mock_articles")
      (simp add: run_early_warning_system_def fetch_news_def)
  moreover have "snd (app_invoke llm (Inl e)) = snd (app_invoke llm (Inr wf_mock_articles))"
    by (simp add: app_invoke_def fetch_news_node_def split: prod.splits sum.splits)
  moreover have "map title mock_articles =
     [Text ''Central Bank announces surprise 0.5% interest rate hike due to inflation fears'',
      Text ''New iPhone 16 features leaked ahead of launch'',
      Text ''Major Real Estate Developer files for bankruptcy protection'']"
    by (simp add: mock_articles_def)
  moreover have "map title wf_mock_articles =
     [Text ''Central Bank hikes rates by 0.75%'', Text ''New K-Pop star debut'']"
    by (simp add: wf_mock_articles_def)
  moreover have "2 \<le> length mock_articles" "2 \<le> length wf_mock_articles"
    by (simp_all add: mock_articles_def wf_mock_articles_def)
  ultimately show ?thesis
    by (simp add: fetch_news_def fetch_news_node_def)
qed

text \<open>
  Claim C10. The workflow takes whatever list a successful retrieval returns, the empty
  list included, in which case the run ends at the notice that no relevant news was
  found; the linear script replaces an empty list by its fixture.
\<close>

theorem empty_retrieval_is_kept_by_the_workflow:
  "fetch_news_node (Inr articles) = ([Step_banner 1], articles) \<and>
   app_invoke llm (Inr []) =
     ([Step_banner 1, Step_banner 2, No_relevant_news],
      Inr \<lparr>raw_headlines = [], relevant_news = Some [], analyzed_risks = None,
           final_email_body = None\<rparr>) \<and>
   fetch_news (Inr []) = ([], mock_articles)"
  by (simp add: fetch_news_node_def app_invoke_def filter_news_node_def check_relevance_def
      fetch_news_def)

section \<open>Decoded values that are no objects\<close>

text \<open>
  Claim C9. When the cleaned text is valid JSON that encodes no object,
  \<open>parse_json_response\<close> returns the decoded value: a list for \<open>[1, 2]\<close>, a truth value
  for \<open>true\<close>. For \<open>null\<close> the decoded value is \<open>None\<close>, the very value returned for the
  malformed \<open>not json\<close>, and the filter step of the linear script treats both answers
  alike, as a parse error.
\<close>

theorem parse_json_response_non_object:
  "(json_loads (clean response_text) = Some v \<and> (\<forall>kvs. v \<noteq> JObject kvs) \<longrightarrow> parse_json_response response_text = v) \<and>
   parse_json_response ''[1, 2]'' = JArray [JInt 1, JInt 2] \<and>
   parse_json_response ''true'' = JBool True \<and>
   json_loads (clean ''null'') = Some JNull \<and>
   json_loads (clean ''not json'') = None \<and>
   parse_json_response ''null'' = parse_json_response ''not json'' \<and>
   (llm n (Filter_prompt h) = Inr ''null'' \<or> llm n (Filter_prompt h) = Inr ''not json'' \<longrightarrow>
      filter_stage llm n h = ([Llm_invoke (Filter_prompt h), Skipped None], False))"
proof -
  have a: "parse_json_response ''[1, 2]'' = JArray [JInt 1, JInt 2]" by code_simp
  have b: "parse_json_response ''true'' = JBool True" by code_simp
  have c: "json_loads (clean ''null'') = Some JNull" by code_simp
  have d: "json_loads (clean ''not json'') = None" by code_simp
  have e: "parse_json_response ''null'' = JNull" "parse_json_response ''not json'' = JNull"
    using c d by (simp_all add: parse_json_response_def)
  have f: "llm n (Filter_prompt h) = Inr ''null'' \<or> llm n (Filter_prompt h) = Inr ''not json'' \<longrightarrow>
      filter_stage llm n h = ([Llm_invoke (Filter_prompt h), Skipped None], False)"
    using e by (auto simp: filter_stage_def)
  have g: "json_loads (clean response_text) = Some v \<and> (\<forall>kvs. v \<noteq> JObject kvs) \<longrightarrow> parse_json_response response_text = v"
    by (simp add: parse_json_response_def)
  from a b c d e f g show ?thesis by simp
qed

text \<open>The theorem at the text \<open>[1, 2]\<close> and for the client that answers \<open>null\<close>.\<close>

theorem parse_json_response_non_object_witness:
  "json_loads (clean ''[1, 2]'') = Some (JArray [JInt 1, JInt 2]) \<and>
   parse_json_response ''[1, 2]'' = JArray [JInt 1, JInt 2] \<and>
   llm_null 0 (Filter_prompt (Some ''New K-Pop star debut'')) = Inr ''null'' \<and>
   filter_stage llm_null 0 (Some ''New K-Pop star debut'') =
     ([Llm_invoke (Filter_prompt (Some ''New K-Pop star debut'')), Skipped None], False)"
proof -
  have h: "json_loads (clean ''[1, 2]'') = Some (JArray [JInt 1, JInt 2])" by code_simp
  have l: "llm_null 0 (Filter_prompt (Some ''New K-Pop star debut'')) = Inr ''null''"
    by (simp add: llm_null_def)
  from parse_json_response_non_object [where response_text = "''[1, 2]''" and v = "JArray [JInt 1, JInt 2]"
      and llm = llm_null and n = 0 and h = "Some ''New K-Pop star debut''"] h l
  show ?thesis by simp
qed

end
